theory Spec2Isabelle
  imports Complex_Main "HOL-Library.Sublist"
begin

chapter \<open>Excel interview agent: session backend and interview engine\<close>

text \<open>
  Two programs of the repository are embedded here.

  \<^item> The TypeScript session backend: \<open>SessionService\<close> over the relational tables the
    migration \<open>CreateTables1703001000000\<close> declares, and the route through which a
    response is submitted.
  \<^item> The Python interview engine of the technical specification (\<open>Evaluator\<close>,
    \<open>Reporter\<close>, \<open>InterviewEngine\<close> with the mock scorer).

  Numbers (\<open>number\<close> in TypeScript, \<open>float\<close> in Python) are exact rationals: no
  rounding of binary floating point is modelled. Clock reads (\<open>new Date()\<close>,
  \<open>datetime.utcnow()\<close>), generated keys (\<open>uuid_generate_v4()\<close>) and the random draws
  of the mock scorer are arguments of the operations that use them. Identifiers are
  opaque strings: the format checks of the uuid schemas are not modelled. A lost
  database connection is not modelled: a repository call fails only when the database
  rejects the statement.
\<close>

section \<open>Session backend: data model\<close>

type_synonym uuid = string
type_synonym date = nat

datatype SessionStatus = PENDING | IN_PROGRESS | COMPLETED | ABANDONED

text \<open>\<open>AppError(message, statusCode)\<close> of the error middleware.\<close>

datatype AppError = AppError string nat

text \<open>
  Entity \<open>SessionResponse\<close> (table \<open>session_responses\<close>). \<open>r_id\<close> and
  \<open>r_created_at\<close> are the \<open>id\<close> and \<open>created_at\<close> columns of \<open>BaseEntity\<close>;
  \<open>score\<close> is nullable. A record holds the values of the columns. The column
  \<open>updated_at\<close> is left out of both entities: no operation of the service reads it.
\<close>

record SessionResponse =
  r_id :: uuid
  r_created_at :: date
  session_id :: uuid
  question_id :: uuid
  answer :: string
  score :: "rat option"
  time_taken :: int
  is_correct :: bool

text \<open>Entity \<open>InterviewSession\<close> (table \<open>interview_sessions\<close>).\<close>

record InterviewSession =
  s_id :: uuid
  s_created_at :: date
  interview_id :: uuid
  candidate_name :: string
  candidate_email :: string
  status :: SessionStatus
  started_at :: "date option"
  completed_at :: "date option"
  total_score :: "rat option"

text \<open>
  The database. Of the tables \<open>interviews\<close> and \<open>interview_questions\<close> only the
  primary keys matter to the session service (they are the targets of its foreign
  keys); the session service never writes them.
\<close>

record database =
  interviews :: "uuid list"
  interview_questions :: "uuid list"
  interview_sessions :: "InterviewSession list"
  session_responses :: "SessionResponse list"

text \<open>
  A session as \<open>findOne\<close> loads it with \<open>relations: ["responses"]\<close> and
  \<open>order: {responses: {created_at: "ASC"}}\<close>.
\<close>

record LoadedSession =
  session :: InterviewSession
  loaded_responses :: "SessionResponse list"

subsection \<open>The column types \<open>numeric(5,2)\<close> and \<open>integer\<close>\<close>

text \<open>
  \<open>score\<close> and \<open>total_score\<close> are \<open>numeric(5,2)\<close>: a written value is rounded to
  two decimals (half away from zero) and the statement fails when the rounded value
  needs more than three digits before the point. \<open>time_taken\<close> is a 32-bit
  \<open>integer\<close>.
\<close>

definition round_half_away :: "rat \<Rightarrow> int" where
  "round_half_away x = (if 0 \<le> x then \<lfloor>x + 1/2\<rfloor> else - \<lfloor>- x + 1/2\<rfloor>)"

definition numeric_5_2 :: "rat \<Rightarrow> rat option" where
  "numeric_5_2 x =
     (let n = round_half_away (x * 100)
      in if 100000 \<le> \<bar>n\<bar> then None else Some (of_int n / 100))"

definition int4 :: "int \<Rightarrow> bool" where
  "int4 n = (- 2147483648 \<le> n \<and> n \<le> 2147483647)"

text \<open>
  The entities declare no transformer for their \<open>decimal\<close> columns, so the driver
  hands a stored \<open>numeric(5,2)\<close> value to the service as its text: the sign, the
  digits before the point, the point and two decimals (\<open>100.00\<close>, \<open>0.50\<close>).
\<close>

definition digit_char :: "nat \<Rightarrow> char" where
  "digit_char n = ''0123456789'' ! n"

fun decimal :: "nat \<Rightarrow> string" where
  "decimal n = (if n < 10 then [digit_char n] else decimal (n div 10) @ [digit_char (n mod 10)])"

declare decimal.simps [simp del]

definition numeric_out :: "rat \<Rightarrow> string" where
  "numeric_out v =
     (let k = round_half_away (v * 100); a = nat \<bar>k\<bar>
      in (if k < 0 then ''-'' else []) @ decimal (a div 100) @ ''.''
           @ [digit_char (a mod 100 div 10), digit_char (a mod 10)])"

text \<open>
  The value the database reads from a text that is written into a numeric column.
  The texts written here consist of digits, points and minus signs; of these the
  database accepts an optional sign followed by digits with at most one point and at
  least one digit, and rejects every other.
\<close>

definition is_digit :: "char \<Rightarrow> bool" where
  "is_digit c = (c \<in> set ''0123456789'')"

definition digits_value :: "string \<Rightarrow> nat" where
  "digits_value ds = foldl (\<lambda>a c. 10 * a + (of_char c - 48)) 0 ds"

definition unsigned_in :: "string \<Rightarrow> rat option" where
  "unsigned_in u =
     (let ip = takeWhile is_digit u; rest = dropWhile is_digit u
      in case rest of
           [] \<Rightarrow> if ip = [] then None else Some (of_nat (digits_value ip))
         | c # fp \<Rightarrow>
             if c = CHR ''.'' \<and> list_all is_digit fp \<and> (ip \<noteq> [] \<or> fp \<noteq> [])
             then Some (of_nat (digits_value ip)
                        + of_nat (digits_value fp) / 10 ^ length fp)
             else None)"

definition numeric_in :: "string \<Rightarrow> rat option" where
  "numeric_in s =
     (case s of
        [] \<Rightarrow> None
      | c # u \<Rightarrow>
          if c = CHR ''-'' then map_option uminus (unsigned_in u)
          else if c = CHR ''+'' then unsigned_in u
          else unsigned_in s)"

subsection \<open>Repository primitives\<close>

text \<open>
  \<open>INSERT INTO session_responses\<close>: rejected by the primary key, by
  \<open>UQ_session_responses_session_id_question_id\<close>, by the two foreign keys and by a
  \<open>time_taken\<close> outside the column type.
\<close>

definition insert_response :: "SessionResponse \<Rightarrow> database \<Rightarrow> database option" where
  "insert_response r db =
     (if r_id r \<in> set (map r_id (session_responses db)) then None
      else if (session_id r, question_id r)
                \<in> set (map (\<lambda>x. (session_id x, question_id x)) (session_responses db))
        then None
      else if session_id r \<notin> set (map s_id (interview_sessions db)) then None
      else if question_id r \<notin> set (interview_questions db) then None
      else if \<not> int4 (time_taken r) then None
      else Some (db\<lparr>session_responses := session_responses db @ [r]\<rparr>))"

text \<open>
  \<open>UPDATE session_responses ... WHERE id = rid\<close> with new values for the key columns:
  rejected when another row holds the new pair of session and question, by the two
  foreign keys and by a \<open>time_taken\<close> outside the column type.
\<close>

definition rewrite_response ::
  "uuid \<Rightarrow> (SessionResponse \<Rightarrow> SessionResponse) \<Rightarrow> uuid \<Rightarrow> uuid \<Rightarrow> int \<Rightarrow> database
     \<Rightarrow> database option" where
  "rewrite_response rid f sid qid tt db =
     (if (sid, qid) \<in> set (map (\<lambda>x. (session_id x, question_id x))
                             (filter (\<lambda>x. r_id x \<noteq> rid) (session_responses db)))
        then None
      else if sid \<notin> set (map s_id (interview_sessions db)) then None
      else if qid \<notin> set (interview_questions db) then None
      else if \<not> int4 tt then None
      else Some (db\<lparr>session_responses :=
                       map (\<lambda>r. if r_id r = rid then f r else r) (session_responses db)\<rparr>))"

text \<open>
  \<open>INSERT INTO interview_sessions\<close>: rejected by the primary key and by the
  foreign key to \<open>interviews\<close>.
\<close>

definition insert_session :: "InterviewSession \<Rightarrow> database \<Rightarrow> database option" where
  "insert_session s db =
     (if s_id s \<in> set (map s_id (interview_sessions db)) then None
      else if interview_id s \<notin> set (interviews db) then None
      else Some (db\<lparr>interview_sessions := interview_sessions db @ [s]\<rparr>))"

text \<open>\<open>repository.update(id, partial)\<close>: every row with that key, none if absent.\<close>

definition update_session ::
  "uuid \<Rightarrow> (InterviewSession \<Rightarrow> InterviewSession) \<Rightarrow> database \<Rightarrow> database" where
  "update_session sid f db =
     db\<lparr>interview_sessions :=
          map (\<lambda>s. if s_id s = sid then f s else s) (interview_sessions db)\<rparr>"

definition update_response ::
  "uuid \<Rightarrow> (SessionResponse \<Rightarrow> SessionResponse) \<Rightarrow> database \<Rightarrow> database" where
  "update_response rid f db =
     db\<lparr>session_responses :=
          map (\<lambda>r. if r_id r = rid then f r else r) (session_responses db)\<rparr>"

definition find_responses :: "uuid \<Rightarrow> database \<Rightarrow> SessionResponse list" where
  "find_responses sid db = filter (\<lambda>r. session_id r = sid) (session_responses db)"

definition find_response :: "uuid \<Rightarrow> database \<Rightarrow> SessionResponse option" where
  "find_response rid db = List.find (\<lambda>r. r_id r = rid) (session_responses db)"

definition find_session :: "uuid \<Rightarrow> database \<Rightarrow> LoadedSession option" where
  "find_session sid db =
     (case List.find (\<lambda>s. s_id s = sid) (interview_sessions db) of
        None \<Rightarrow> None
      | Some s \<Rightarrow>
          Some \<lparr>session = s,
                loaded_responses = sort_key r_created_at (find_responses sid db)\<rparr>)"

section \<open>Session backend: \<open>SessionService\<close>\<close>

text \<open>
  Each operation returns \<open>Inl\<close> the \<open>AppError\<close> its \<open>catch\<close> block throws, or \<open>Inr\<close>
  what it returns with the database after the call. A failed statement leaves the
  database as it was.
\<close>

definition createSession ::
  "uuid \<Rightarrow> date \<Rightarrow> uuid \<Rightarrow> string \<Rightarrow> string \<Rightarrow> database
     \<Rightarrow> AppError + (LoadedSession \<times> database)" where
  "createSession new_id now iid cname cemail db =
     (let s = \<lparr>s_id = new_id, s_created_at = now, interview_id = iid,
                candidate_name = cname, candidate_email = cemail, status = PENDING,
                started_at = None, completed_at = None, total_score = None\<rparr>
      in case insert_session s db of
           None \<Rightarrow> Inl (AppError ''Failed to create interview session'' 500)
         | Some db' \<Rightarrow> Inr (\<lparr>session = s, loaded_responses = []\<rparr>, db'))"

definition startSession ::
  "uuid \<Rightarrow> date \<Rightarrow> database \<Rightarrow> AppError + (LoadedSession option \<times> database)" where
  "startSession sessionId now db =
     (let db' = update_session sessionId
                  (\<lambda>s. s\<lparr>status := IN_PROGRESS, started_at := Some now\<rparr>) db
      in Inr (find_session sessionId db', db'))"

text \<open>
  The object \<open>data\<close> that \<open>submitResponse\<close> receives at run time: the four fields of
  its declared type and, of the further keys the request body may carry, the two that
  \<open>repository.create\<close> copies into the entity and the service does not overwrite,
  \<open>id\<close> and \<open>score\<close>. A key \<open>created_at\<close> is left out: a new row is stamped
  with the time of the call.
\<close>

record response_data =
  d_session_id :: uuid
  d_question_id :: uuid
  d_answer :: string
  d_time_taken :: int
  d_id :: "uuid option"
  d_score :: "rat option"

text \<open>
  \<open>submitResponse\<close>: \<open>create({...data, is_correct: false})\<close> and \<open>save\<close>. An entity
  without \<open>id\<close> is inserted under a generated key. An entity with an \<open>id\<close> is
  inserted under that key when no row has it; when a row has it, \<open>save\<close> updates that
  row with the columns the entity defines. The returned entity is represented by its
  key.
\<close>

definition submitResponse ::
  "uuid \<Rightarrow> date \<Rightarrow> response_data \<Rightarrow> database \<Rightarrow> AppError + (uuid \<times> database)" where
  "submitResponse new_id now data db =
     (let failed = Inl (AppError ''Failed to submit response'' 500);
          rid = (case d_id data of None \<Rightarrow> new_id | Some i \<Rightarrow> i)
      in case (case d_score data of
                 None \<Rightarrow> Some None
               | Some x \<Rightarrow> map_option Some (numeric_5_2 x)) of
           None \<Rightarrow> failed
         | Some sc \<Rightarrow>
             if d_id data \<noteq> None \<and> rid \<in> set (map r_id (session_responses db)) then
               (case rewrite_response rid
                       (\<lambda>r. r\<lparr>session_id := d_session_id data,
                               question_id := d_question_id data,
                               answer := d_answer data,
                               score := (case sc of None \<Rightarrow> score r | Some v \<Rightarrow> Some v),
                               time_taken := d_time_taken data,
                               is_correct := False\<rparr>)
                       (d_session_id data) (d_question_id data) (d_time_taken data) db of
                  None \<Rightarrow> failed
                | Some db' \<Rightarrow> Inr (rid, db'))
             else
               (case insert_response
                       \<lparr>r_id = rid, r_created_at = now, session_id = d_session_id data,
                        question_id = d_question_id data, answer = d_answer data,
                        score = sc, time_taken = d_time_taken data, is_correct = False\<rparr>
                       db of
                  None \<Rightarrow> failed
                | Some db' \<Rightarrow> Inr (rid, db')))"

definition evaluateResponse ::
  "uuid \<Rightarrow> rat \<Rightarrow> bool \<Rightarrow> database \<Rightarrow> AppError + (SessionResponse option \<times> database)" where
  "evaluateResponse responseId sc isCorrect db =
     (case numeric_5_2 sc of
        None \<Rightarrow>
          (if responseId \<in> set (map r_id (session_responses db))
           then Inl (AppError ''Failed to evaluate response'' 500)
           else Inr (find_response responseId db, db))
      | Some v \<Rightarrow>
          (let db' = update_response responseId
                       (\<lambda>r. r\<lparr>score := Some v, is_correct := isCorrect\<rparr>) db
           in Inr (find_response responseId db', db')))"

text \<open>
  \<open>completeSession\<close>: \<open>scoredResponses\<close> are the rows of the session whose score is
  neither \<open>null\<close> nor \<open>undefined\<close>. The accumulator of \<open>reduce\<close> starts as the number
  0. A loaded score is a text, so \<open>score || 0\<close> is that text (it is never empty) and
  \<open>+\<close> concatenates: the number 0 turns into the text \<open>0\<close> in front of the first
  score, and every further score is appended.
\<close>

datatype js_sum = JsZero | JsText string

fun js_plus :: "js_sum \<Rightarrow> js_sum \<Rightarrow> js_sum" where
  "js_plus JsZero JsZero = JsZero"
| "js_plus JsZero (JsText t) = JsText (''0'' @ t)"
| "js_plus (JsText s) JsZero = JsText (s @ ''0'')"
| "js_plus (JsText s) (JsText t) = JsText (s @ t)"

definition score_or_zero :: "SessionResponse \<Rightarrow> js_sum" where
  "score_or_zero response =
     (case score response of
        None \<Rightarrow> JsZero
      | Some v \<Rightarrow> if numeric_out v = [] then JsZero else JsText (numeric_out v))"

definition scoredResponses :: "uuid \<Rightarrow> database \<Rightarrow> SessionResponse list" where
  "scoredResponses sid db = filter (\<lambda>r. score r \<noteq> None) (find_responses sid db)"

definition totalScore :: "uuid \<Rightarrow> database \<Rightarrow> js_sum" where
  "totalScore sid db =
     foldl (\<lambda>sum response. js_plus sum (score_or_zero response)) JsZero
       (scoredResponses sid db)"

text \<open>
  The \<open>UPDATE\<close> of \<open>completeSession\<close> writes \<open>totalScore\<close> into \<open>total_score\<close>: the
  number 0, or a text that the database has to read as a number. A text it cannot
  read fails the statement, whether or not a session has the key.
\<close>

definition written_total :: "js_sum \<Rightarrow> rat option" where
  "written_total acc = (case acc of JsZero \<Rightarrow> Some 0 | JsText t \<Rightarrow> numeric_in t)"

definition completeSession ::
  "uuid \<Rightarrow> date \<Rightarrow> database \<Rightarrow> AppError + (LoadedSession option \<times> database)" where
  "completeSession sessionId now db =
     (case written_total (totalScore sessionId db) of
        None \<Rightarrow> Inl (AppError ''Failed to complete session'' 500)
      | Some x \<Rightarrow>
          (case numeric_5_2 x of
             None \<Rightarrow>
               (if sessionId \<in> set (map s_id (interview_sessions db))
                then Inl (AppError ''Failed to complete session'' 500)
                else Inr (find_session sessionId db, db))
           | Some v \<Rightarrow>
               (let db' = update_session sessionId
                            (\<lambda>s. s\<lparr>status := COMPLETED, completed_at := Some now,
                                    total_score := Some v\<rparr>) db
                in Inr (find_session sessionId db', db'))))"

definition abandonSession ::
  "uuid \<Rightarrow> database \<Rightarrow> AppError + (LoadedSession option \<times> database)" where
  "abandonSession sessionId db =
     (let db' = update_session sessionId (\<lambda>s. s\<lparr>status := ABANDONED\<rparr>) db
      in Inr (find_session sessionId db', db'))"

section \<open>Session backend: the routes of a response\<close>

text \<open>
  The body of \<open>POST /:id/responses\<close>, as far as the service reads it: the three keys
  of \<open>submitResponseSchema\<close> and, of the keys the schema does not know, \<open>session_id\<close>,
  \<open>id\<close> and \<open>score\<close>. (A key \<open>is_correct\<close> is overwritten by the service.)
\<close>

record request_body =
  b_question_id :: uuid
  b_answer :: string
  b_time_taken :: int
  b_session_id :: "uuid option"
  b_id :: "uuid option"
  b_score :: "rat option"

text \<open>
  \<open>validate(submitResponseSchema)\<close>: \<open>answer\<close> has at least one character and
  \<open>time_taken\<close> is a safe integer that is not negative. With \<open>stripUnknown\<close> an
  unknown key is no error; it is removed from the validated copy, which \<open>validate\<close>
  does not assign to \<open>req.body\<close> (\<open>validateQuery\<close> and \<open>validateParams\<close> do assign
  theirs). The controller therefore passes \<open>{session_id: id, ...req.body}\<close> with the
  unknown keys of the request.
\<close>

definition submitResponseSchema :: "request_body \<Rightarrow> bool" where
  "submitResponseSchema body =
     (b_answer body \<noteq> [] \<and> 0 \<le> b_time_taken body
      \<and> b_time_taken body \<le> 9007199254740991)"

definition submit_route ::
  "uuid \<Rightarrow> request_body \<Rightarrow> uuid \<Rightarrow> date \<Rightarrow> database \<Rightarrow> AppError + (uuid \<times> database)" where
  "submit_route path_id body new_id now db =
     (if \<not> submitResponseSchema body then Inl (AppError ''Validation failed'' 400)
      else submitResponse new_id now
             \<lparr>d_session_id = (case b_session_id body of None \<Rightarrow> path_id | Some s \<Rightarrow> s),
              d_question_id = b_question_id body,
              d_answer = b_answer body,
              d_time_taken = b_time_taken body,
              d_id = b_id body,
              d_score = b_score body\<rparr> db)"

text \<open>
  \<open>evaluateResponseSchema\<close> and the route \<open>PUT /responses/:responseId/evaluate\<close>: the
  body is validated (\<open>score\<close> between 0 and 100) before the controller calls the
  service; a missing row is answered with 404.
\<close>

definition evaluateResponseSchema :: "rat \<Rightarrow> bool" where
  "evaluateResponseSchema sc = (0 \<le> sc \<and> sc \<le> 100)"

definition evaluate_route ::
  "uuid \<Rightarrow> rat \<Rightarrow> bool \<Rightarrow> database \<Rightarrow> AppError + (SessionResponse \<times> database)" where
  "evaluate_route responseId sc isCorrect db =
     (if \<not> evaluateResponseSchema sc then Inl (AppError ''Validation failed'' 400)
      else case evaluateResponse responseId sc isCorrect db of
             Inl e \<Rightarrow> Inl e
           | Inr (None, db') \<Rightarrow> Inl (AppError ''Response not found'' 404)
           | Inr (Some r, db') \<Rightarrow> Inr (r, db'))"

subsection \<open>Sequences of service calls\<close>

datatype call =
    CreateSession uuid date uuid string string
  | StartSession uuid date
  | SubmitResponse uuid date response_data
  | EvaluateResponse uuid rat bool
  | CompleteSession uuid date
  | AbandonSession uuid

definition db_after :: "AppError + ('a \<times> database) \<Rightarrow> database \<Rightarrow> database" where
  "db_after res db = (case res of Inl e \<Rightarrow> db | Inr (x, db') \<Rightarrow> db')"

fun exec :: "call \<Rightarrow> database \<Rightarrow> database" where
  "exec (CreateSession new_id now iid cname cemail) db =
     db_after (createSession new_id now iid cname cemail db) db"
| "exec (StartSession sid now) db = db_after (startSession sid now db) db"
| "exec (SubmitResponse new_id now data) db = db_after (submitResponse new_id now data db) db"
| "exec (EvaluateResponse rid sc ok) db = db_after (evaluateResponse rid sc ok db) db"
| "exec (CompleteSession sid now) db = db_after (completeSession sid now db) db"
| "exec (AbandonSession sid) db = db_after (abandonSession sid db) db"

fun exec_all :: "call list \<Rightarrow> database \<Rightarrow> database" where
  "exec_all [] db = db"
| "exec_all (c # cs) db = exec_all cs (exec c db)"

text \<open>
  The keys of the stored responses under the primary key and under the constraint
  \<open>UNIQUE ("session_id", "question_id")\<close>, and the two constraints together.
\<close>

definition response_keys :: "database \<Rightarrow> (uuid \<times> uuid) list" where
  "response_keys db = map (\<lambda>r. (session_id r, question_id r)) (session_responses db)"

definition one_response_per_question :: "database \<Rightarrow> bool" where
  "one_response_per_question db = distinct (response_keys db)"

definition keys_hold :: "database \<Rightarrow> bool" where
  "keys_hold db = (distinct (map r_id (session_responses db)) \<and> one_response_per_question db)"


definition stored_score :: "uuid \<Rightarrow> database \<Rightarrow> rat option option" where
  "stored_score rid db = map_option score (find_response rid db)"


section \<open>Interview engine: data model\<close>

text \<open>
  The state's \<open>phase\<close> takes the five values of
  \<open>Literal["intro","qa","scenario","reflection","closing"]\<close>; the engine compares it
  with these literals only.
\<close>

datatype phase = Intro | Qa | Scenario | Reflection | Closing

record Question =
  q_id :: string
  q_text :: string
  q_type :: string

text \<open>A Python \<open>dict\<close> with string keys, in insertion order.\<close>

type_synonym 'a dict = "(string \<times> 'a) list"

record ResponseRecord =
  rr_question_id :: string
  question_text :: string
  answer_text :: string
  timestamp :: date
  evaluator_id :: string
  scores :: "rat dict"
  rationale :: string
  deterministic_results :: "string dict"

text \<open>
  The report dict of \<open>Reporter.generate_report\<close>: either \<open>{"message": ...}\<close> or
  \<open>{"avg_score": ..., "strengths": ..., "responses": [...]}\<close>.
\<close>

datatype report = Message string | Summary rat string "ResponseRecord list"

text \<open>\<open>InterviewState\<close>, the class the engine is written with.\<close>

record InterviewState =
  st_session_id :: string
  phase :: phase
  q_index :: nat
  questions :: "Question list"
  responses :: "ResponseRecord list"
  start_time :: date
  end_time :: "date option"
  feedback_report :: "report option"
  meta :: "string dict"

datatype py_error = KeyError string

text \<open>The dict a scorer returns: \<open>scores\<close>, \<open>rationale\<close>, \<open>advice\<close>, \<open>evidence\<close>.\<close>

record llm_reply =
  r_scores :: "rat dict"
  r_rationale :: string
  r_advice :: "string list"
  r_evidence :: "string list"

text \<open>The dict \<open>Evaluator.evaluate\<close> returns.\<close>

record eval_result =
  e_scores :: "rat dict"
  e_overall :: rat
  e_rationale :: string
  e_advice :: "string list"
  e_evidence :: "string list"

subsection \<open>Dict operations\<close>

text \<open>\<open>d[k]\<close> raises \<open>KeyError\<close> on a missing key; \<open>d.get(k, default)\<close> does not.\<close>

definition dict_item :: "'a dict \<Rightarrow> string \<Rightarrow> py_error + 'a" where
  "dict_item d k = (case map_of d k of None \<Rightarrow> Inl (KeyError k) | Some v \<Rightarrow> Inr v)"

definition dict_get :: "'a dict \<Rightarrow> string \<Rightarrow> 'a \<Rightarrow> 'a" where
  "dict_get d k dflt = (case map_of d k of None \<Rightarrow> dflt | Some v \<Rightarrow> v)"

text \<open>\<open>{**d, k: v}\<close>: an existing key keeps its place, a new key goes last.\<close>

fun dict_with :: "'a dict \<Rightarrow> string \<Rightarrow> 'a \<Rightarrow> 'a dict" where
  "dict_with [] k v = [(k, v)]"
| "dict_with ((k', v') # d) k v = (if k' = k then (k, v) # d else (k', v') # dict_with d k v)"

section \<open>Interview engine: scorer, evaluator, reporter\<close>

text \<open>
  \<open>mock_llm_evaluate\<close>. Its three random draws \<open>randint(3,5)\<close>, \<open>randint(2,5)\<close>,
  \<open>randint(2,5)\<close> are the argument \<open>draws\<close>; \<open>mock_draws\<close> is their range.
  \<open>answer_text[:40]\<close> is \<open>take 40\<close> (characters are bytes here).
\<close>

definition mock_draws :: "int \<times> int \<times> int \<Rightarrow> bool" where
  "mock_draws draws =
     (case draws of (c, d, m) \<Rightarrow> 3 \<le> c \<and> c \<le> 5 \<and> 2 \<le> d \<and> d \<le> 5 \<and> 2 \<le> m \<and> m \<le> 5)"

definition mock_llm_evaluate :: "int \<times> int \<times> int \<Rightarrow> string \<Rightarrow> string \<Rightarrow> llm_reply" where
  "mock_llm_evaluate draws qtext atext =
     (case draws of (c, d, m) \<Rightarrow>
        \<lparr>r_scores = [(''correctness'', of_int c), (''design'', of_int d),
                     (''communication'', of_int m)],
         r_rationale = ''Reason: concise and mostly correct.'',
         r_advice = [''Add examples'', ''Explain tradeoffs''],
         r_evidence = [take 40 atext]\<rparr>)"

text \<open>
  The scorer behind \<open>Evaluator.evaluate\<close> is the mock; its draws tell one call from
  another.
\<close>

datatype scorer = Mock "int \<times> int \<times> int"

fun run_scorer :: "scorer \<Rightarrow> string \<Rightarrow> string \<Rightarrow> py_error + llm_reply" where
  "run_scorer (Mock draws) qtext atext = Inr (mock_llm_evaluate draws qtext atext)"

text \<open>
  \<open>Evaluator.evaluate\<close>: one call of the scorer; the three axes are read with
  \<open>scores[...]\<close> in the order of the source's expression.
\<close>

definition evaluate :: "scorer \<Rightarrow> Question \<Rightarrow> string \<Rightarrow> py_error + eval_result" where
  "evaluate sc question atext =
     (case run_scorer sc (q_text question) atext of
        Inl e \<Rightarrow> Inl e
      | Inr r \<Rightarrow>
          (case dict_item (r_scores r) ''correctness'' of
             Inl e \<Rightarrow> Inl e
           | Inr c \<Rightarrow>
               (case dict_item (r_scores r) ''design'' of
                  Inl e \<Rightarrow> Inl e
                | Inr d \<Rightarrow>
                    (case dict_item (r_scores r) ''communication'' of
                       Inl e \<Rightarrow> Inl e
                     | Inr m \<Rightarrow>
                         Inr \<lparr>e_scores = r_scores r,
                              e_overall = c * (4/10) + d * (3/10) + m * (3/10),
                              e_rationale = r_rationale r,
                              e_advice = r_advice r,
                              e_evidence = r_evidence r\<rparr>))))"

text \<open>\<open>Reporter.generate_report\<close>: reads \<open>state.responses\<close> and nothing else.\<close>

definition generate_report :: "InterviewState \<Rightarrow> report" where
  "generate_report state =
     (if responses state = [] then Message ''No responses''
      else
        let total = sum_list (map (\<lambda>resp. dict_get (scores resp) ''overall'' 0)
                                  (responses state));
            avg = total / of_nat (length (responses state));
            strengths = (if avg > 6 then ''Good communication.'' else ''Needs more depth.'')
        in Summary avg strengths (responses state))"

section \<open>Interview engine: \<open>InterviewEngine\<close>\<close>

text \<open>\<open>__init__\<close>: the fresh state (session id and clock read as arguments).\<close>

definition init_state :: "string \<Rightarrow> date \<Rightarrow> Question list \<Rightarrow> InterviewState" where
  "init_state sid now qs =
     \<lparr>st_session_id = sid, phase = Intro, q_index = 0,
      questions = qs, responses = [], start_time = now, end_time = None,
      feedback_report = None, meta = []\<rparr>"

text \<open>
  The prompts of \<open>ask_next\<close>. An apostrophe is \<open>CHR 0x27\<close>; the closing prompt
  contains U+2014, three bytes in UTF-8.
\<close>

definition welcome_prompt :: string where
  "welcome_prompt = ''Welcome! I'' @ [CHR 0x27] @ ''ll ask a few technical questions.''"

definition reflect_prompt :: string where
  "reflect_prompt = ''Reflect: what'' @ [CHR 0x27] @ ''s one thing you would improve?''"

definition thank_you :: string where
  "thank_you = ''Thank you '' @ [CHR 0xE2, CHR 0x80, CHR 0x94] @ '' generating report...''"

definition ask_next :: "InterviewState \<Rightarrow> string \<times> InterviewState" where
  "ask_next state =
     (if phase state = Intro then
        (welcome_prompt, state\<lparr>phase := Qa\<rparr>)
      else if phase state = Qa then
        (if q_index state < length (questions state)
         then (q_text (questions state ! q_index state), state)
         else (reflect_prompt, state\<lparr>phase := Reflection\<rparr>))
      else if phase state = Reflection then (thank_you, state\<lparr>phase := Closing\<rparr>)
      else (''Interview complete.'', state))"

text \<open>
  \<open>process_response\<close>. An exception of the evaluator leaves the method before any
  assignment to the state, so the error result carries no new state.
\<close>

definition process_response ::
  "scorer \<Rightarrow> date \<Rightarrow> string \<Rightarrow> InterviewState \<Rightarrow> py_error + (string \<times> InterviewState)" where
  "process_response sc now user_text state =
     (if phase state = Qa \<and> q_index state < length (questions state) then
        (let q = questions state ! q_index state
         in case evaluate sc q user_text of
              Inl e \<Rightarrow> Inl e
            | Inr eval_result \<Rightarrow>
                (let resp = \<lparr>rr_question_id = q_id q, question_text = q_text q,
                             answer_text = user_text, timestamp = now,
                             evaluator_id = ''mock-v0'',
                             scores = dict_with (e_scores eval_result) ''overall''
                                        (e_overall eval_result),
                             rationale = e_rationale eval_result,
                             deterministic_results = []\<rparr>
                 in Inr (ask_next (state\<lparr>responses := responses state @ [resp],
                                         q_index := q_index state + 1\<rparr>))))
      else if phase state = Reflection then
        (let s1 = state\<lparr>end_time := Some now\<rparr>;
             s2 = s1\<lparr>feedback_report := Some (generate_report s1)\<rparr>
         in Inr (''Report ready.'', s2\<lparr>phase := Closing\<rparr>))
      else Inr (ask_next state))"

subsection \<open>Runs of the engine\<close>

text \<open>
  An event is one call of the UI on the engine. A raised exception would leave the
  state as it was before the call.
\<close>

datatype event = AskNext | Respond scorer date string

fun step :: "event \<Rightarrow> InterviewState \<Rightarrow> InterviewState" where
  "step AskNext state = snd (ask_next state)"
| "step (Respond sc now user_text) state =
     (case process_response sc now user_text state of
        Inl e \<Rightarrow> state
      | Inr (msg, state') \<Rightarrow> state')"

fun run :: "event list \<Rightarrow> InterviewState \<Rightarrow> InterviewState" where
  "run [] state = state"
| "run (e # es) state = run es (step e state)"

text \<open>The phases of the states a run passes through, the first state included.\<close>

fun phases_seen :: "InterviewState \<Rightarrow> event list \<Rightarrow> phase list" where
  "phases_seen state [] = [phase state]"
| "phases_seen state (e # es) = phase state # phases_seen (step e state) es"

fun is_respond :: "event \<Rightarrow> bool" where
  "is_respond (Respond sc now user_text) = True"
| "is_respond AskNext = False"

text \<open>
  The order of phases of the specification, and the phases a state of the engine can
  still reach, in the order in which it reaches them.
\<close>

definition canonical_phases :: "phase list" where
  "canonical_phases = [Intro, Qa, Scenario, Reflection, Closing]"

fun phases_from :: "phase \<Rightarrow> phase list" where
  "phases_from Intro = [Intro, Qa, Reflection, Closing]"
| "phases_from Qa = [Qa, Reflection, Closing]"
| "phases_from Scenario = [Scenario]"
| "phases_from Reflection = [Reflection, Closing]"
| "phases_from Closing = [Closing]"

text \<open>The correctness axis of every stored record, in order.\<close>

definition correctness_history :: "InterviewState \<Rightarrow> rat list" where
  "correctness_history state =
     map (\<lambda>resp. dict_get (scores resp) ''correctness'' 0) (responses state)"

text \<open>
  The states in which the question index is in step with the phase: it has not passed
  the number of questions, and while a question is pending the phase is qa.
\<close>

definition in_step :: "InterviewState \<Rightarrow> bool" where
  "in_step s = (q_index s \<le> length (questions s)
               \<and> (if q_index s < length (questions s) then phase s = Qa else True))"

text \<open>
  Two events are of the same kind when both are \<open>ask_next\<close> or both are
  \<open>process_response\<close>, whatever the draws, the clock and the answer. Two states agree
  in what steers the interview when they have the same phase, the same question index
  and the same questions.
\<close>

fun same_kind :: "event \<Rightarrow> event \<Rightarrow> bool" where
  "same_kind AskNext AskNext = True"
| "same_kind (Respond sc now user_text) (Respond sc' now' user_text') = True"
| "same_kind e e' = False"

definition same_control :: "InterviewState \<Rightarrow> InterviewState \<Rightarrow> bool" where
  "same_control s s' =
     (phase s = phase s' \<and> q_index s = q_index s' \<and> questions s = questions s')"

text \<open>The calls whose draws lie in the ranges of \<open>randint\<close>.\<close>

fun draws_in_range :: "event \<Rightarrow> bool" where
  "draws_in_range (Respond (Mock draws) now user_text) = mock_draws draws"
| "draws_in_range AskNext = True"

text \<open>
  The three axes of a record lie between 0 and 5; so does, in \<open>record_in_range\<close>,
  its \<open>overall\<close>. The score a report states, if it states one.
\<close>

definition axes_in_range :: "ResponseRecord \<Rightarrow> bool" where
  "axes_in_range resp =
     list_all (\<lambda>axis. 0 \<le> dict_get (scores resp) axis 0 \<and> dict_get (scores resp) axis 0 \<le> 5)
       [''correctness'', ''design'', ''communication'']"

definition record_in_range :: "ResponseRecord \<Rightarrow> bool" where
  "record_in_range resp =
     (axes_in_range resp \<and> 0 \<le> dict_get (scores resp) ''overall'' 0
      \<and> dict_get (scores resp) ''overall'' 0 \<le> 5)"

definition report_score :: "report \<Rightarrow> rat option" where
  "report_score r = (case r of Message m \<Rightarrow> None | Summary avg strengths resps \<Rightarrow> Some avg)"

text \<open>
  The overall score in the words of the specification, for comparison with the
  report: the weighted sums of the answers given so far (the \<open>overall\<close> of each
  record), normalised against the maximum achievable for those answers (5 each, the
  weights adding up to 1), on the scale from 0 to 100.
\<close>

definition spec_overallScore :: "ResponseRecord list \<Rightarrow> rat" where
  "spec_overallScore resps =
     100 * sum_list (map (\<lambda>resp. dict_get (scores resp) ''overall'' 0) resps)
       / (5 * of_nat (length resps))"


section \<open>Sample data\<close>

text \<open>A database with one interview and two questions, and a session created in it.\<close>

definition demo_db :: database where
  "demo_db = \<lparr>interviews = [''i1''], interview_questions = [''q1'', ''q2''],
              interview_sessions = [], session_responses = []\<rparr>"

definition demo_session_db :: database where
  "demo_session_db = exec (CreateSession ''s1'' 1 ''i1'' ''Ada'' ''ada@example.org'') demo_db"

text \<open>
  A request body with the three keys of the schema and nothing else, the data the
  controller makes of it for session \<open>s1\<close>, and the same body with a key \<open>score\<close>.
\<close>

definition demo_body :: request_body where
  "demo_body = \<lparr>b_question_id = ''q1'', b_answer = ''=SUM(A1:A10)'', b_time_taken = 12,
                b_session_id = None, b_id = None, b_score = None\<rparr>"

definition demo_data :: response_data where
  "demo_data = \<lparr>d_session_id = ''s1'', d_question_id = ''q1'', d_answer = ''=SUM(A1:A10)'',
                d_time_taken = 12, d_id = None, d_score = None\<rparr>"

definition demo_body_with_score :: request_body where
  "demo_body_with_score = demo_body\<lparr>b_score := Some 95\<rparr>"

text \<open>
  A session with two answers, both evaluated with the highest score the schema admits.
\<close>

definition demo_calls :: "call list" where
  "demo_calls =
     [CreateSession ''s1'' 1 ''i1'' ''Ada'' ''ada@example.org'',
      StartSession ''s1'' 2,
      SubmitResponse ''r1'' 3 demo_data,
      SubmitResponse ''r2'' 4
        (demo_data\<lparr>d_question_id := ''q2'', d_answer := ''=AVERAGE(A1:A10)'',
                    d_time_taken := 20\<rparr>),
      EvaluateResponse ''r1'' 100 True,
      EvaluateResponse ''r2'' 100 True]"

text \<open>\<open>make_questions\<close>, the question list the engine is created with.\<close>

definition make_questions :: "Question list" where
  "make_questions =
     [\<lparr>q_id = ''q1'', q_text = ''Tell me about a project you are proud of.'', q_type = ''qa''\<rparr>,
      \<lparr>q_id = ''q2'', q_text = ''How would you optimize a slow SQL query?'', q_type = ''qa''\<rparr>,
      \<lparr>q_id = ''q3'', q_text = ''Explain multithreading vs multiprocessing.'',
       q_type = ''qa''\<rparr>]"

definition demo_engine :: InterviewState where
  "demo_engine = init_state ''e1'' 0 make_questions"

text \<open>A complete interview: the welcome, three answers, the reflection.\<close>

definition demo_interview :: "event list" where
  "demo_interview =
     [AskNext,
      Respond (Mock (5, 4, 4)) 1 ''I built a budgeting workbook.'',
      Respond (Mock (5, 3, 2)) 2 ''Add an index and read the plan.'',
      Respond (Mock (3, 2, 2)) 3 ''Threads share memory.'',
      Respond (Mock (4, 4, 4)) 4 ''More examples.'']"

text \<open>A formula question and a state of the engine in which it is pending.\<close>

definition sum_question :: Question where
  "sum_question =
     \<lparr>q_id = ''sum'',
      q_text = ''What is the formula to calculate the sum of cells A1 to A10?'',
      q_type = ''formula''\<rparr>"

definition sum_pending :: InterviewState where
  "sum_pending = snd (ask_next (init_state ''e2'' 0 [sum_question]))"

text \<open>
  The same two answers, once scored 5 on every axis and once scored with the lowest
  draws of the mock.
\<close>

definition demo_high_scores :: "event list" where
  "demo_high_scores =
     [AskNext,
      Respond (Mock (5, 5, 5)) 1 ''I built a budgeting workbook.'',
      Respond (Mock (5, 5, 5)) 2 ''Add an index and read the plan.'']"

definition demo_low_scores :: "event list" where
  "demo_low_scores =
     [AskNext,
      Respond (Mock (3, 2, 2)) 1 ''I built a budgeting workbook.'',
      Respond (Mock (3, 2, 2)) 2 ''Add an index and read the plan.'']"

text \<open>Three answers, and the state of the engine after them.\<close>

definition demo_answers :: "event list" where
  "demo_answers =
     [Respond (Mock (5, 4, 4)) 1 ''I built a budgeting workbook.'',
      Respond (Mock (5, 3, 2)) 2 ''Add an index and read the plan.'',
      Respond (Mock (3, 2, 2)) 3 ''Threads share memory.'']"

definition demo_answered :: InterviewState where
  "demo_answered = run (AskNext # demo_answers) demo_engine"

section \<open>Lists and rows\<close>

lemma find_map_frame:
  "(\<And>x. P (f x) = P x) \<Longrightarrow> (\<And>x. P x \<Longrightarrow> f x = x)
     \<Longrightarrow> List.find P (map f xs) = List.find P xs"
  by (induction xs) auto

lemma find_map_update:
  "(\<And>x. P x \<Longrightarrow> P (g x)) \<Longrightarrow>
   List.find P (map (\<lambda>x. if P x then g x else x) xs) = map_option g (List.find P xs)"
  by (induction xs) auto

lemma responses_update_session [simp]:
  "session_responses (update_session sid f db) = session_responses db"
  by (simp add: update_session_def)

lemma find_response_update_session [simp]:
  "find_response rid (update_session sid f db) = find_response rid db"
  by (simp add: find_response_def)

lemma find_response_update_same:
  assumes "\<And>x. r_id (g x) = r_id x"
  shows "find_response rid (update_response rid g db) = map_option g (find_response rid db)"
proof -
  have "List.find (\<lambda>r. r_id r = rid)
          (map (\<lambda>r. if r_id r = rid then g r else r) (session_responses db))
      = map_option g (List.find (\<lambda>r. r_id r = rid) (session_responses db))"
    by (rule find_map_update) (simp add: assms)
  then show ?thesis by (simp add: find_response_def update_response_def)
qed

lemma find_responses_update_session [simp]:
  "find_responses sid' (update_session sid f db) = find_responses sid' db"
  by (simp add: find_responses_def)


section \<open>Values of the numeric columns\<close>

lemma numeric_5_2_100: "numeric_5_2 100 = Some 100" by code_simp

lemma numeric_5_2_40: "numeric_5_2 40 = Some 40" by code_simp

lemma numeric_5_2_95: "numeric_5_2 95 = Some 95" by code_simp

lemma round_half_away_10000: "round_half_away 10000 = 10000" by code_simp

lemma decimal_100: "decimal 100 = ''100''"
  by (simp add: decimal.simps digit_char_def)

lemma numeric_out_100: "numeric_out 100 = ''100.00''"
  by (simp add: numeric_out_def round_half_away_10000 decimal_100 digit_char_def Let_def)

lemma numeric_in_concatenated: "numeric_in ''0100.00100.00'' = None"
  by (simp add: numeric_in_def unsigned_in_def is_digit_def)

section \<open>The sample session\<close>

lemma demo_session_db_eq:
  "demo_session_db =
     \<lparr>interviews = [''i1''], interview_questions = [''q1'', ''q2''],
      interview_sessions =
        [\<lparr>s_id = ''s1'', s_created_at = 1, interview_id = ''i1'', candidate_name = ''Ada'',
          candidate_email = ''ada@example.org'', status = PENDING, started_at = None,
          completed_at = None, total_score = None\<rparr>],
      session_responses = []\<rparr>"
  by (simp add: demo_session_db_def demo_db_def db_after_def createSession_def
        insert_session_def Let_def)

lemma demo_calls_rows:
  "session_responses (exec_all demo_calls demo_db)
     = [\<lparr>r_id = ''r1'', r_created_at = 3, session_id = ''s1'', question_id = ''q1'',
         answer = ''=SUM(A1:A10)'', score = Some 100, time_taken = 12, is_correct = True\<rparr>,
        \<lparr>r_id = ''r2'', r_created_at = 4, session_id = ''s1'', question_id = ''q2'',
         answer = ''=AVERAGE(A1:A10)'', score = Some 100, time_taken = 20, is_correct = True\<rparr>]"
  by (simp add: demo_calls_def demo_db_def demo_data_def db_after_def
        createSession_def insert_session_def startSession_def update_session_def
        submitResponse_def insert_response_def int4_def
        evaluateResponse_def update_response_def numeric_5_2_100
        find_session_def find_response_def find_responses_def Let_def)

section \<open>Starting a session\<close>






section \<open>A score in the body of a submitted response\<close>

text \<open>
  Claim C10 fails on the route \<open>POST /:id/responses\<close>: a body that passes the
  schema and carries a key \<open>score\<close> is stored with that score by
  \<open>submitResponse\<close>, with no call of \<open>evaluateResponse\<close>. The same body without
  the key is stored unscored.
\<close>

theorem submitted_score_is_stored:
  "submitResponseSchema demo_body_with_score
   \<and> stored_score ''r1''
        (db_after (submit_route ''s1'' demo_body_with_score ''r1'' 3 demo_session_db)
           demo_session_db)
       = Some (Some 95)
   \<and> map_option is_correct
        (find_response ''r1''
           (db_after (submit_route ''s1'' demo_body_with_score ''r1'' 3 demo_session_db)
              demo_session_db))
       = Some False
   \<and> stored_score ''r1''
        (db_after (submit_route ''s1'' demo_body ''r1'' 3 demo_session_db) demo_session_db)
       = Some None"
  by (simp add: demo_body_with_score_def demo_body_def submitResponseSchema_def
        submit_route_def submitResponse_def insert_response_def int4_def numeric_5_2_95
        stored_score_def find_response_def db_after_def demo_session_db_eq Let_def)

section \<open>At most one response per session and question\<close>

lemma responses_after_completeSession:
  "session_responses (db_after (completeSession sid now db) db) = session_responses db"
  by (auto simp: db_after_def completeSession_def Let_def split: option.splits)

lemma rewrite_keeps_keys:
  assumes "distinct (map r_id xs)" and "distinct (map g xs)"
    and "k \<notin> set (map g (filter (\<lambda>x. r_id x \<noteq> i) xs))"
    and "\<And>x. r_id (f x) = r_id x" and "\<And>x. g (f x) = k"
  shows "distinct (map g (map (\<lambda>x. if r_id x = i then f x else x) xs))"
  using assms(1-3)
proof (induction xs)
  case Nil
  then show ?case by simp
next
  case (Cons x xs)
  let ?h = "\<lambda>x. if r_id x = i then f x else x"
  have p3: "k \<notin> set (map g (filter (\<lambda>x. r_id x \<noteq> i) xs))"
    using Cons.prems(3) by (auto split: if_splits)
  have IH: "distinct (map g (map ?h xs))"
    using Cons.IH Cons.prems(1,2) p3 by simp
  show ?case
  proof (cases "r_id x = i")
    case True
    then have others: "\<forall>y\<in>set xs. r_id y \<noteq> i"
      using Cons.prems(1) by (auto simp: image_iff)
    then have same: "map ?h xs = xs" by (intro map_idI) auto
    have "filter (\<lambda>x. r_id x \<noteq> i) xs = xs" using others by (intro filter_True) auto
    then have "k \<notin> set (map g xs)" using Cons.prems(3) True by simp
    then show ?thesis using True same Cons.prems(2) assms(5) by simp
  next
    case False
    then have "g x \<noteq> k" using Cons.prems(3) by auto
    moreover have "g x \<notin> set (map g xs)" using Cons.prems(2) by simp
    ultimately have "g x \<notin> set (map g (map ?h xs))" using assms(5) by (auto simp: image_iff)
    then show ?thesis using False IH by simp
  qed
qed

lemma map_r_id_rewrite:
  "(\<And>x. r_id (f x) = r_id x) \<Longrightarrow> map r_id (map (\<lambda>x. if r_id x = i then f x else x) xs) = map r_id xs"
  by (induction xs) auto

lemma submit_keys_hold:
  assumes "keys_hold db"
  shows "keys_hold (db_after (submitResponse new_id now data db) db)"
proof (cases "submitResponse new_id now data db")
  case (Inl e)
  then show ?thesis using assms by (simp add: db_after_def)
next
  case (Inr res)
  obtain rid db' where res: "res = (rid, db')" by (cases res)
  let ?key = "\<lambda>x. (session_id x, question_id x)"
  from Inr res consider
    (upd) f where "rewrite_response rid f (d_session_id data) (d_question_id data) (d_time_taken data) db = Some db'"
        "\<And>x. r_id (f x) = r_id x" "\<And>x. ?key (f x) = (d_session_id data, d_question_id data)"
  | (ins) r where "insert_response r db = Some db'"
    by (auto simp: submitResponse_def Let_def split: option.splits if_splits)
  then have "keys_hold db'"
  proof cases
    case upd
    from upd(1) have notin: "(d_session_id data, d_question_id data)
        \<notin> set (map ?key (filter (\<lambda>x. r_id x \<noteq> rid) (session_responses db)))"
      and db': "db' = db\<lparr>session_responses :=
                       map (\<lambda>r. if r_id r = rid then f r else r) (session_responses db)\<rparr>"
      by (auto simp: rewrite_response_def split: if_splits)
    have "distinct (map ?key (map (\<lambda>r. if r_id r = rid then f r else r) (session_responses db)))"
      using assms notin upd(2,3)
      by (intro rewrite_keeps_keys)
         (auto simp: keys_hold_def one_response_per_question_def response_keys_def)
    moreover have "map r_id (map (\<lambda>r. if r_id r = rid then f r else r) (session_responses db))
        = map r_id (session_responses db)"
      using upd(2) by (rule map_r_id_rewrite)
    ultimately show ?thesis using assms
      by (simp add: db' keys_hold_def one_response_per_question_def response_keys_def
            del: map_map)
  next
    case ins
    then show ?thesis using assms
      by (auto simp: insert_response_def keys_hold_def one_response_per_question_def
            response_keys_def split: if_splits)
  qed
  then show ?thesis using Inr res by (simp add: db_after_def)
qed

lemma exec_keys_hold:
  assumes "keys_hold db"
  shows "keys_hold (exec c db)"
proof (cases c)
  case (CreateSession new_id now iid cname cemail)
  then show ?thesis using assms
    by (auto simp: db_after_def createSession_def insert_session_def keys_hold_def
          one_response_per_question_def response_keys_def Let_def split: option.splits if_splits)
next
  case (StartSession sid now)
  then show ?thesis using assms
    by (simp add: db_after_def startSession_def keys_hold_def one_response_per_question_def
          response_keys_def Let_def)
next
  case (SubmitResponse new_id now data)
  then show ?thesis using assms by (simp add: submit_keys_hold)
next
  case (EvaluateResponse rid sc ok)
  have "map r_id (session_responses (update_response rid g db)) = map r_id (session_responses db)
      \<and> response_keys (update_response rid g db) = response_keys db"
    if "\<And>x. r_id (g x) = r_id x \<and> session_id (g x) = session_id x \<and> question_id (g x) = question_id x"
    for g
    using that by (simp add: update_response_def response_keys_def comp_def cong: map_cong)
  then show ?thesis using assms EvaluateResponse
    by (auto simp: db_after_def evaluateResponse_def Let_def keys_hold_def
          one_response_per_question_def split: option.splits if_splits)
next
  case (CompleteSession sid now)
  then show ?thesis using assms responses_after_completeSession[of sid now db]
    by (simp add: keys_hold_def one_response_per_question_def response_keys_def)
next
  case (AbandonSession sid)
  then show ?thesis using assms
    by (simp add: db_after_def abandonSession_def keys_hold_def one_response_per_question_def
          response_keys_def Let_def)
qed

lemma exec_all_keys_hold: "keys_hold db \<Longrightarrow> keys_hold (exec_all cs db)"
  by (induction cs arbitrary: db) (auto simp: exec_keys_hold)

lemma submitResponse_duplicate:
  assumes "(d_session_id data, d_question_id data) \<in> set (response_keys db)"
    and "d_id data = None"
  shows "submitResponse new_id now data db = Inl (AppError ''Failed to submit response'' 500)"
  using assms
  by (auto simp: submitResponse_def insert_response_def response_keys_def Let_def
        split: option.splits)

lemma evaluateResponse_replaces:
  assumes "find_response rid db = Some r" and "numeric_5_2 sc = Some v"
  shows "evaluateResponse rid sc ok db
           = Inr (Some (r\<lparr>score := Some v, is_correct := ok\<rparr>),
                  update_response rid (\<lambda>r. r\<lparr>score := Some v, is_correct := ok\<rparr>) db)"
    and "find_response rid (update_response rid (\<lambda>r. r\<lparr>score := Some v, is_correct := ok\<rparr>) db)
           = Some (r\<lparr>score := Some v, is_correct := ok\<rparr>)"
    and "response_keys (update_response rid (\<lambda>r. r\<lparr>score := Some v, is_correct := ok\<rparr>) db)
           = response_keys db"
proof -
  let ?g = "\<lambda>r. r\<lparr>score := Some v, is_correct := ok\<rparr>"
  show f: "find_response rid (update_response rid ?g db) = Some (?g r)"
    using assms(1) by (simp add: find_response_update_same)
  then show "evaluateResponse rid sc ok db = Inr (Some (?g r), update_response rid ?g db)"
    using assms(2) by (simp add: evaluateResponse_def Let_def)
  show "response_keys (update_response rid ?g db) = response_keys db"
    by (simp add: update_response_def response_keys_def comp_def cong: map_cong)
qed

text \<open>
  Claim C7, as stated, fails: a result for an already scored response is not
  rejected. A second \<open>evaluateResponse\<close> on a response scored 100 succeeds and leaves
  it scored 40.
\<close>

theorem rescoring_is_accepted:
  "stored_score ''r1'' (exec_all demo_calls demo_db) = Some (Some 100)
   \<and> isl (evaluateResponse ''r1'' 40 False (exec_all demo_calls demo_db)) = False
   \<and> stored_score ''r1''
        (exec (EvaluateResponse ''r1'' 40 False) (exec_all demo_calls demo_db))
       = Some (Some 40)"
  by (simp add: stored_score_def find_response_def db_after_def evaluateResponse_def
        update_response_def numeric_5_2_40 demo_calls_rows Let_def)

text \<open>
  Claim C7, amended. From a database in which the primary key and the unique
  constraint of \<open>session_responses\<close> hold, after every sequence of calls of
  \<open>SessionService\<close> no two responses share a session and a question. A
  \<open>submitResponse\<close> without an id for a pair that has a response is rejected with
  status 500. An \<open>evaluateResponse\<close> on an existing response, scored or not, is
  accepted: it replaces the score and the verdict of that one row and adds no row.
\<close>

theorem one_row_per_question_rescoring_replaces:
  assumes "keys_hold db"
  shows "one_response_per_question (exec_all cs db)
       \<and> ((d_session_id data, d_question_id data) \<in> set (response_keys (exec_all cs db))
            \<and> d_id data = None
          \<longrightarrow> submitResponse new_id now data (exec_all cs db)
                = Inl (AppError ''Failed to submit response'' 500))
       \<and> (find_response rid (exec_all cs db) = Some r \<and> numeric_5_2 sc = Some v
          \<longrightarrow> (\<exists>db'. evaluateResponse rid sc ok (exec_all cs db)
                       = Inr (Some (r\<lparr>score := Some v, is_correct := ok\<rparr>), db')
                   \<and> find_response rid db' = Some (r\<lparr>score := Some v, is_correct := ok\<rparr>)
                   \<and> response_keys db' = response_keys (exec_all cs db)))"
proof -
  have "keys_hold (exec_all cs db)" using assms by (rule exec_all_keys_hold)
  then have inv: "one_response_per_question (exec_all cs db)" by (simp add: keys_hold_def)
  show ?thesis
    using inv submitResponse_duplicate[of data "exec_all cs db" new_id now]
      evaluateResponse_replaces[of rid "exec_all cs db" r sc v ok]
    by blast
qed

theorem one_row_per_question_rescoring_replaces_witness:
  "keys_hold demo_db
   \<and> one_response_per_question (exec_all demo_calls demo_db)
   \<and> response_keys (exec_all demo_calls demo_db) = [(''s1'', ''q1''), (''s1'', ''q2'')]
   \<and> submitResponse ''r3'' 5 demo_data (exec_all demo_calls demo_db)
       = Inl (AppError ''Failed to submit response'' 500)"
proof -
  have start: "keys_hold demo_db"
    by (simp add: keys_hold_def one_response_per_question_def response_keys_def demo_db_def)
  have keys: "response_keys (exec_all demo_calls demo_db) = [(''s1'', ''q1''), (''s1'', ''q2'')]"
    by (simp add: response_keys_def demo_calls_rows)
  have dup: "(d_session_id demo_data, d_question_id demo_data)
               \<in> set (response_keys (exec_all demo_calls demo_db)) \<and> d_id demo_data = None"
    by (simp add: keys demo_data_def)
  from one_row_per_question_rescoring_replaces[OF start, of demo_calls demo_data "''r3''" 5]
    start keys dup
  show ?thesis by blast
qed

section \<open>Completing a session with two scored responses\<close>

text \<open>
  The scores of the sample session are loaded as the texts \<open>100.00\<close>; the sum that
  \<open>completeSession\<close> folds from the number 0 is the text \<open>0100.00100.00\<close>, which
  the column \<open>total_score\<close> does not accept.
\<close>

lemma demo_calls_complete_fails:
  "totalScore ''s1'' (exec_all demo_calls demo_db) = JsText ''0100.00100.00''
   \<and> completeSession ''s1'' 9 (exec_all demo_calls demo_db)
       = Inl (AppError ''Failed to complete session'' 500)"
  by (simp add: completeSession_def totalScore_def scoredResponses_def find_responses_def
        score_or_zero_def written_total_def demo_calls_rows numeric_out_100
        numeric_in_concatenated)

section \<open>Evaluation with the mock scorer\<close>

lemma evaluate_mock:
  "evaluate (Mock (c, d, m)) q a =
     Inr \<lparr>e_scores = [(''correctness'', of_int c), (''design'', of_int d), (''communication'', of_int m)],
          e_overall = of_int c * (4/10) + of_int d * (3/10) + of_int m * (3/10),
          e_rationale = ''Reason: concise and mostly correct.'',
          e_advice = [''Add examples'', ''Explain tradeoffs''],
          e_evidence = [take 40 a]\<rparr>"
  by (simp add: evaluate_def mock_llm_evaluate_def dict_item_def)

lemma evaluate_mock_ok: "\<exists>r. evaluate (Mock draws) q a = Inr r"
  by (cases draws) (simp add: evaluate_mock)

lemma evaluate_Inr:
  assumes "evaluate sc q a = Inr r"
  shows "\<exists>reply. run_scorer sc (q_text q) a = Inr reply \<and> e_scores r = r_scores reply
           \<and> map_of (r_scores reply) ''correctness'' \<noteq> None"
  using assms by (auto simp: evaluate_def dict_item_def split: sum.splits option.splits)

lemma map_of_dict_with:
  "map_of (dict_with d k v) k' = (if k' = k then Some v else map_of d k')"
  by (induction d k v rule: dict_with.induct) auto

lemma sum_pending_eq:
  "sum_pending = (init_state ''e2'' 0 [sum_question])\<lparr>phase := Qa\<rparr>"
  by (simp add: sum_pending_def ask_next_def init_state_def)

section \<open>The order of phases\<close>

lemma ask_next_frame:
  "q_index (snd (ask_next s)) = q_index s" "questions (snd (ask_next s)) = questions s"
  "responses (snd (ask_next s)) = responses s"
  by (auto simp: ask_next_def)

lemma step_phase:
  "phase (step e s) = phase s
   \<or> (phase s \<noteq> phase (step e s)
       \<and> phases_from (phase s) = phase s # phases_from (phase (step e s)))"
proof (cases e)
  case AskNext
  then show ?thesis by (cases "phase s") (auto simp: ask_next_def)
next
  case (Respond sc now utext)
  then show ?thesis
    by (cases "phase s")
       (auto simp: process_response_def ask_next_def Let_def split: sum.splits)
qed

lemma phases_seen_Cons: "\<exists>rest. phases_seen s es = phase s # rest"
  by (cases es) auto

lemma phases_seen_prefix:
  "prefix (remdups_adj (phases_seen s es)) (phases_from (phase s))"
proof (induction es arbitrary: s)
  case Nil
  then show ?case by (cases "phase s") auto
next
  case (Cons e es)
  obtain rest where rest: "phases_seen (step e s) es = phase (step e s) # rest"
    using phases_seen_Cons by blast
  note IH = Cons.IH[of "step e s"]
  from step_phase[of e s] show ?case
  proof
    assume same: "phase (step e s) = phase s"
    then show ?thesis using IH rest by simp
  next
    assume "phase s \<noteq> phase (step e s)
      \<and> phases_from (phase s) = phase s # phases_from (phase (step e s))"
    then show ?thesis using IH rest by simp
  qed
qed

text \<open>
  Claim C2, as stated, fails: a complete interview passes through intro, qa,
  reflection and closing. The scenario phase is left out, so the sequence of distinct
  phases is not a prefix of the canonical list.
\<close>

theorem phase_sequence_not_canonical_prefix:
  "remdups_adj (phases_seen demo_engine demo_interview) = [Intro, Qa, Reflection, Closing]
   \<and> \<not> prefix (remdups_adj (phases_seen demo_engine demo_interview)) canonical_phases"
  by (simp add: demo_engine_def demo_interview_def init_state_def make_questions_def
        canonical_phases_def process_response_def ask_next_def evaluate_mock Let_def)

text \<open>
  Claim C2, amended. For every engine and every sequence of calls, the sequence of
  distinct phases the state passes through is a prefix of intro, qa, reflection,
  closing. It therefore follows the canonical order (it is a subsequence of the
  canonical list that starts with intro), and no phase is repeated or revisited.
\<close>

theorem phases_in_canonical_order:
  "prefix (remdups_adj (phases_seen (init_state sid t qs) es)) [Intro, Qa, Reflection, Closing]
   \<and> subseq (remdups_adj (phases_seen (init_state sid t qs) es)) canonical_phases
   \<and> distinct (remdups_adj (phases_seen (init_state sid t qs) es))"
proof -
  let ?tr = "remdups_adj (phases_seen (init_state sid t qs) es)"
  have p: "prefix ?tr [Intro, Qa, Reflection, Closing]"
    using phases_seen_prefix[of "init_state sid t qs" es] by (simp add: init_state_def)
  then obtain zs where zs: "[Intro, Qa, Reflection, Closing] = ?tr @ zs"
    by (auto simp: prefix_def)
  have "distinct (?tr @ zs)" unfolding zs[symmetric] by simp
  then have d: "distinct ?tr" by simp
  have "subseq [Intro, Qa, Reflection, Closing] canonical_phases"
    by (simp add: canonical_phases_def)
  with p have "subseq ?tr canonical_phases"
    by (meson prefix_imp_subseq subseq_order.trans)
  with p d show ?thesis by blast
qed

section \<open>The question index\<close>

lemma step_ask_in_step:
  assumes "in_step s"
  shows "in_step (step AskNext s) \<and> q_index (step AskNext s) = q_index s
       \<and> questions (step AskNext s) = questions s"
  using assms by (auto simp: in_step_def ask_next_def split: if_splits)

lemma step_respond_in_step:
  assumes "in_step s"
  shows "in_step (step (Respond sc now utext) s)
       \<and> q_index (step (Respond sc now utext) s) = min (q_index s + 1) (length (questions s))
       \<and> questions (step (Respond sc now utext) s) = questions s"
proof (cases "phase s = Qa \<and> q_index s < length (questions s)")
  case True
  obtain c d m where sc: "sc = Mock (c, d, m)" by (cases sc) auto
  show ?thesis using True assms
    by (auto simp: sc process_response_def evaluate_mock Let_def ask_next_def in_step_def)
next
  case False
  with assms have full: "q_index s = length (questions s)"
    by (auto simp: in_step_def split: if_splits)
  show ?thesis using False full
    by (cases "phase s") (auto simp: process_response_def Let_def ask_next_def in_step_def)
qed

lemma run_q_index:
  assumes "in_step s"
  shows "q_index (run es s)
           = min (q_index s + length (filter is_respond es)) (length (questions s))"
  using assms
proof (induction es arbitrary: s)
  case Nil
  then show ?case by (simp add: in_step_def)
next
  case (Cons e es)
  show ?case
  proof (cases e)
    case AskNext
    with Cons.prems have st: "in_step (step e s)" "q_index (step e s) = q_index s"
      "questions (step e s) = questions s"
      using step_ask_in_step by auto
    have "q_index (run es (step e s))
            = min (q_index (step e s) + length (filter is_respond es))
                (length (questions (step e s)))"
      using Cons.IH[OF st(1)] by simp
    then show ?thesis using st AskNext by simp
  next
    case (Respond sc now utext)
    from Cons.prems have st: "in_step (step e s)"
      "q_index (step e s) = min (q_index s + 1) (length (questions s))"
      "questions (step e s) = questions s"
      using step_respond_in_step[of s sc now utext] by (auto simp: Respond)
    have "q_index (run es (step e s))
            = min (q_index (step e s) + length (filter is_respond es))
                (length (questions (step e s)))"
      using Cons.IH[OF st(1)] by simp
    then show ?thesis using st Respond by auto
  qed
qed

text \<open>
  Claim C5. In the qa phase, the one phase with a list of questions, starting from
  question index 0: after any sequence of calls the question index equals the minimum
  of the number of \<open>process_response\<close> calls and the number of questions. Calls of
  \<open>ask_next\<close> in between do not change it.
\<close>

theorem q_index_counts_responses:
  assumes "phase s = Qa" and "q_index s = 0"
  shows "q_index (run es s) = min (length (filter is_respond es)) (length (questions s))"
proof -
  have "in_step s" using assms by (simp add: in_step_def)
  from run_q_index[OF this] show ?thesis using assms(2) by simp
qed

theorem q_index_counts_responses_witness:
  "phase (step AskNext demo_engine) = Qa \<and> q_index (step AskNext demo_engine) = 0
   \<and> q_index (run (tl demo_interview) (step AskNext demo_engine)) = 3"
proof -
  have a: "phase (step AskNext demo_engine) = Qa"
    by (simp add: demo_engine_def init_state_def ask_next_def)
  have b: "q_index (step AskNext demo_engine) = 0"
    by (simp add: demo_engine_def init_state_def ask_next_def)
  have "questions (step AskNext demo_engine) = make_questions"
    by (simp add: demo_engine_def init_state_def ask_next_def)
  with q_index_counts_responses[OF a b, of "tl demo_interview"] a b show ?thesis
    by (simp add: demo_interview_def make_questions_def)
qed

section \<open>The next question and the scores\<close>

lemma step_same_control:
  assumes "same_control s s'" and "same_kind e e'"
  shows "same_control (step e s) (step e' s')"
proof (cases e)
  case AskNext
  with assms(2) have e': "e' = AskNext" by (cases e') auto
  show ?thesis using assms(1) by (auto simp: AskNext e' same_control_def ask_next_def)
next
  case (Respond sc now utext)
  with assms(2) obtain sc' now' utext' where e': "e' = Respond sc' now' utext'"
    by (cases e') auto
  obtain c d m where sc: "sc = Mock (c, d, m)" by (cases sc) auto
  obtain c' d' m' where sc': "sc' = Mock (c', d', m')" by (cases sc') auto
  show ?thesis using assms(1)
    by (auto simp: Respond e' sc sc' same_control_def process_response_def evaluate_mock
          Let_def ask_next_def)
qed

lemma ask_next_same_control:
  "same_control s s' \<Longrightarrow> fst (ask_next s) = fst (ask_next s')"
  by (auto simp: same_control_def ask_next_def)

text \<open>
  Claim C6, as stated, fails: after two answers scored 5 for correctness (an average
  of at least 4) the engine asks the same third question as after the same answers
  scored 3.
\<close>

theorem high_scores_same_next_question:
  "correctness_history (run demo_high_scores demo_engine) = [5, 5]
   \<and> correctness_history (run demo_low_scores demo_engine) = [3, 3]
   \<and> fst (ask_next (run demo_high_scores demo_engine))
       = ''Explain multithreading vs multiprocessing.''
   \<and> fst (ask_next (run demo_low_scores demo_engine))
       = ''Explain multithreading vs multiprocessing.''"
  by (simp add: demo_engine_def demo_high_scores_def demo_low_scores_def init_state_def
        make_questions_def correctness_history_def dict_get_def
        process_response_def ask_next_def evaluate_mock Let_def)

text \<open>
  Claim C6, amended. The engine has no difficulty tier, and what it asks does not
  depend on the scores: two runs that start with the same phase, question index and
  questions and make the same kinds of calls in the same order, with whatever draws
  of the scorer, answers and times, end with the same phase, question index and
  questions, and the next prompt is the same.
\<close>

theorem next_question_ignores_scores:
  assumes "same_control s s'" and "list_all2 same_kind es es'"
  shows "same_control (run es s) (run es' s')
       \<and> fst (ask_next (run es s)) = fst (ask_next (run es' s'))"
proof -
  from assms(2) assms(1) have "same_control (run es s) (run es' s')"
  proof (induction es es' arbitrary: s s' rule: list_all2_induct)
    case Nil
    then show ?case by simp
  next
    case (Cons e es e' es')
    from Cons.prems Cons.hyps(1) have "same_control (step e s) (step e' s')"
      by (rule step_same_control)
    then show ?case using Cons.IH by simp
  qed
  then show ?thesis by (simp add: ask_next_same_control)
qed

theorem next_question_ignores_scores_witness:
  "same_control demo_engine demo_engine
   \<and> list_all2 same_kind demo_high_scores demo_low_scores
   \<and> q_index (run demo_high_scores demo_engine) = q_index (run demo_low_scores demo_engine)
   \<and> fst (ask_next (run demo_high_scores demo_engine))
       = fst (ask_next (run demo_low_scores demo_engine))"
proof -
  have a: "same_control demo_engine demo_engine" by (simp add: same_control_def)
  have b: "list_all2 same_kind demo_high_scores demo_low_scores"
    by (simp add: demo_high_scores_def demo_low_scores_def)
  from next_question_ignores_scores[OF a b] a b show ?thesis
    by (simp add: same_control_def)
qed

section \<open>The report\<close>

lemma generate_report_frame:
  "responses s' = responses s \<Longrightarrow> generate_report s' = generate_report s"
  by (simp add: generate_report_def)

lemma generate_report_summary:
  assumes "map (\<lambda>r. dict_get (scores r) ''overall'' 0) (responses s) = xs" and "xs \<noteq> []"
  shows "generate_report s =
           Summary (sum_list xs / of_nat (length xs))
             (if sum_list xs / of_nat (length xs) > 6 then ''Good communication.''
              else ''Needs more depth.'')
             (responses s)"
proof -
  have "responses s \<noteq> []" using assms by auto
  moreover have "length (responses s) = length xs" using assms(1) by auto
  ultimately show ?thesis using assms(1) by (simp add: generate_report_def Let_def)
qed

lemma demo_answers_overall:
  "map (\<lambda>r. dict_get (scores r) ''overall'' 0) (responses demo_answered) = [22/5, 7/2, 12/5]"
  by (simp add: demo_answered_def demo_engine_def demo_answers_def init_state_def
        make_questions_def dict_get_def process_response_def ask_next_def evaluate_mock Let_def)

text \<open>
  Claim C8. The report is a function of the stored response records alone: two states
  with the same records give the same report, whatever their other fields. In
  particular, generating again from a state that already holds its report gives that
  report, and the report \<open>process_response\<close> stores when the reflection is answered
  is the report of the records as they were, with no record added or changed.
\<close>

theorem generate_report_reads_only_responses:
  assumes "responses s' = responses s"
  shows "generate_report s' = generate_report s
       \<and> generate_report (s\<lparr>feedback_report := Some (generate_report s)\<rparr>) = generate_report s
       \<and> (\<exists>s2. process_response sc now utext (s\<lparr>phase := Reflection\<rparr>)
                   = Inr (''Report ready.'', s2)
                \<and> feedback_report s2 = Some (generate_report s)
                \<and> generate_report s2 = generate_report s)"
proof -
  have frame: "generate_report s' = generate_report s"
    using assms by (rule generate_report_frame)
  have stored: "generate_report (s\<lparr>feedback_report := Some (generate_report s)\<rparr>)
                  = generate_report s"
    by (rule generate_report_frame) simp
  let ?s1 = "s\<lparr>phase := Reflection, end_time := Some now\<rparr>"
  let ?s2 = "?s1\<lparr>feedback_report := Some (generate_report ?s1), phase := Closing\<rparr>"
  have call: "process_response sc now utext (s\<lparr>phase := Reflection\<rparr>)
                = Inr (''Report ready.'', ?s2)"
    by (simp add: process_response_def Let_def)
  have r1: "generate_report ?s1 = generate_report s"
    by (rule generate_report_frame) simp
  have r2: "generate_report ?s2 = generate_report s"
    by (rule generate_report_frame) simp
  have "feedback_report ?s2 = Some (generate_report s)" using r1 by simp
  with call r2 have "\<exists>s2. process_response sc now utext (s\<lparr>phase := Reflection\<rparr>)
                   = Inr (''Report ready.'', s2)
                \<and> feedback_report s2 = Some (generate_report s)
                \<and> generate_report s2 = generate_report s"
    by blast
  with frame stored show ?thesis by blast
qed

theorem generate_report_reads_only_responses_witness:
  "generate_report (demo_answered\<lparr>phase := Closing, end_time := Some 9\<rparr>)
     = generate_report demo_answered
   \<and> generate_report demo_answered
     = Summary (103/30) ''Needs more depth.'' (responses demo_answered)"
proof -
  have same: "responses (demo_answered\<lparr>phase := Closing, end_time := Some 9\<rparr>)
                = responses demo_answered" by simp
  have "generate_report demo_answered
          = Summary (103/30) ''Needs more depth.'' (responses demo_answered)"
    using generate_report_summary[OF demo_answers_overall] by simp
  with generate_report_reads_only_responses[OF same] show ?thesis by simp
qed

section \<open>The score of the report\<close>

lemma mock_record_in_range:
  assumes "mock_draws (c, d, m)"
  shows "record_in_range
           \<lparr>rr_question_id = qid, question_text = qt, answer_text = a, timestamp = now,
            evaluator_id = ev,
            scores = dict_with [(''correctness'', of_int c), (''design'', of_int d),
                                (''communication'', of_int m)] ''overall''
                       (of_int c * (4/10) + of_int d * (3/10) + of_int m * (3/10)),
            rationale = ra, deterministic_results = dr\<rparr>"
proof -
  from assms have c: "(0::rat) \<le> of_int c" "of_int c \<le> (5::rat)"
    and d: "(0::rat) \<le> of_int d" "of_int d \<le> (5::rat)"
    and m: "(0::rat) \<le> of_int m" "of_int m \<le> (5::rat)"
    by (simp_all add: mock_draws_def)
  then show ?thesis
    by (simp add: record_in_range_def axes_in_range_def dict_get_def)
qed

lemma step_records_in_range:
  assumes "list_all record_in_range (responses s)" and "draws_in_range e"
  shows "list_all record_in_range (responses (step e s))"
proof (cases e)
  case AskNext
  then show ?thesis using assms(1) by (simp add: ask_next_frame)
next
  case (Respond sc now utext)
  obtain c d m where sc: "sc = Mock (c, d, m)" by (cases sc) auto
  from assms(2) have draws: "mock_draws (c, d, m)" by (simp add: Respond sc)
  show ?thesis
    using assms(1) mock_record_in_range[OF draws]
    by (auto simp: Respond sc process_response_def evaluate_mock Let_def ask_next_def)
qed

lemma run_records_in_range:
  assumes "list_all record_in_range (responses s)" and "\<forall>e\<in>set es. draws_in_range e"
  shows "list_all record_in_range (responses (run es s))"
  using assms
proof (induction es arbitrary: s)
  case Nil
  then show ?case by simp
next
  case (Cons e es)
  from Cons.prems have "list_all record_in_range (responses (step e s))"
    by (simp add: step_records_in_range)
  then show ?case using Cons.IH Cons.prems(2) by simp
qed

lemma sum_overall_bounds:
  assumes "list_all record_in_range rs"
  shows "0 \<le> sum_list (map (\<lambda>resp. dict_get (scores resp) ''overall'' 0) rs)
       \<and> sum_list (map (\<lambda>resp. dict_get (scores resp) ''overall'' 0) rs)
            \<le> 5 * of_nat (length rs)"
  using assms by (induction rs) (auto simp: record_in_range_def algebra_simps)

text \<open>
  Claim C3, as stated, fails: after two answers scored 5 on every axis the report
  states the score 5, where the weighted sums normalised against their maximum give
  100.
\<close>

theorem perfect_answers_report_five:
  "mock_draws (5, 5, 5)
   \<and> report_score (generate_report (run demo_high_scores demo_engine)) = Some 5
   \<and> spec_overallScore (responses (run demo_high_scores demo_engine)) = 100"
  by (simp add: mock_draws_def demo_engine_def demo_high_scores_def init_state_def
        make_questions_def report_score_def generate_report_def spec_overallScore_def
        dict_get_def process_response_def ask_next_def evaluate_mock Let_def)

text \<open>
  Claim C3, amended. With the draws of the scorer in their ranges, every axis of
  every record of a run lies between 0 and 5. The score of the report is not put on
  the scale from 0 to 100: it is the mean of the weighted sums of the answers given
  so far, between 0 and 5, a twentieth of the score normalised against the maximum
  for those answers; unanswered questions do not lower it. With no answer the report
  states no score.
\<close>

theorem report_score_is_mean_of_overall:
  assumes "\<forall>e\<in>set es. draws_in_range e"
  shows "list_all axes_in_range (responses (run es (init_state sid t qs)))
       \<and> (if responses (run es (init_state sid t qs)) = []
          then generate_report (run es (init_state sid t qs)) = Message ''No responses''
          else \<exists>avg. report_score (generate_report (run es (init_state sid t qs))) = Some avg
                 \<and> 0 \<le> avg \<and> avg \<le> 5
                 \<and> spec_overallScore (responses (run es (init_state sid t qs))) = 20 * avg)"
proof -
  let ?s = "run es (init_state sid t qs)"
  let ?total = "sum_list (map (\<lambda>resp. dict_get (scores resp) ''overall'' 0) (responses ?s))"
  let ?n = "of_nat (length (responses ?s)) :: rat"
  have "list_all record_in_range (responses (init_state sid t qs))"
    by (simp add: init_state_def)
  then have inv: "list_all record_in_range (responses ?s)"
    using assms by (rule run_records_in_range)
  then have axes: "list_all axes_in_range (responses ?s)"
    by (simp add: list_all_iff record_in_range_def)
  show ?thesis
  proof (cases "responses ?s = []")
    case True
    then show ?thesis by (simp add: generate_report_def)
  next
    case False
    then have n: "0 < ?n" by simp
    from sum_overall_bounds[OF inv] have lo: "0 \<le> ?total" and hi: "?total \<le> 5 * ?n"
      by simp_all
    have rep: "report_score (generate_report ?s) = Some (?total / ?n)"
      using False by (simp add: generate_report_def report_score_def Let_def)
    have a: "0 \<le> ?total / ?n" using lo n by simp
    have b: "?total / ?n \<le> 5" using hi n by (simp add: pos_divide_le_eq)
    have c: "spec_overallScore (responses ?s) = 20 * (?total / ?n)"
      by (simp add: spec_overallScore_def)
    from rep a b c axes False show ?thesis by simp
  qed
qed

theorem report_score_is_mean_of_overall_witness:
  "list_all draws_in_range (AskNext # demo_answers)
   \<and> list_all axes_in_range (responses demo_answered)
   \<and> report_score (generate_report demo_answered) = Some (103/30)
   \<and> spec_overallScore (responses demo_answered) = 206/3"
proof -
  have draws: "\<forall>e\<in>set (AskNext # demo_answers). draws_in_range e"
    by (simp add: demo_answers_def mock_draws_def)
  have rep: "report_score (generate_report demo_answered) = Some (103/30)"
    using generate_report_summary[OF demo_answers_overall] by (simp add: report_score_def)
  have full: "responses demo_answered \<noteq> []"
    using demo_answers_overall by auto
  from report_score_is_mean_of_overall[OF draws, of "''e1''" 0 make_questions] rep full draws
  show ?thesis
    by (auto simp: demo_answered_def demo_engine_def list_all_iff)
qed

section \<open>The correctness axis\<close>

text \<open>
  Claim C1, as stated, fails: no rule-checker takes part in the evaluation. The wrong
  formula \<open>=AVERAGE(A1:A10)\<close>, answered to the question for a sum, is recorded with
  the correctness the scorer returned, 3 for the lowest draw of the mock, which
  exceeds 1.
\<close>

theorem wrong_formula_scored_above_one:
  "mock_draws (3, 2, 2)
   \<and> correctness_history (run [Respond (Mock (3, 2, 2)) 5 ''=AVERAGE(A1:A10)''] sum_pending) = [3]
   \<and> (1::rat) < 3"
  by (simp add: mock_draws_def sum_pending_eq init_state_def sum_question_def
        correctness_history_def dict_get_def
        process_response_def ask_next_def evaluate_mock Let_def)

lemma sum_pending_answered:
  "\<exists>msg s'. process_response (Mock (3, 2, 2)) 5 ''=AVERAGE(A1:A10)'' sum_pending = Inr (msg, s')"
  by (simp add: sum_pending_eq init_state_def process_response_def evaluate_mock Let_def)

text \<open>
  Claim C1, amended. Whenever \<open>process_response\<close> scores an answer, the correctness
  axis of the record it appends is the correctness value the scorer returned for that
  answer; nothing overrides it, and the record's deterministic results are empty.
\<close>

theorem correctness_axis_is_the_scorers:
  assumes "phase s = Qa" and "q_index s < length (questions s)"
    and "process_response sc now utext s = Inr (msg, s')"
  shows "\<exists>reply resp.
           run_scorer sc (q_text (questions s ! q_index s)) utext = Inr reply
         \<and> responses s' = responses s @ [resp]
         \<and> map_of (scores resp) ''correctness'' = map_of (r_scores reply) ''correctness''
         \<and> map_of (scores resp) ''correctness'' \<noteq> None
         \<and> answer_text resp = utext
         \<and> deterministic_results resp = []"
proof -
  let ?q = "questions s ! q_index s"
  from assms obtain r where r: "evaluate sc ?q utext = Inr r"
    by (auto simp: process_response_def Let_def split: sum.splits)
  then obtain reply where reply: "run_scorer sc (q_text ?q) utext = Inr reply"
    "e_scores r = r_scores reply" "map_of (r_scores reply) ''correctness'' \<noteq> None"
    using evaluate_Inr by blast
  let ?resp = "\<lparr>rr_question_id = q_id ?q, question_text = q_text ?q,
                 answer_text = utext, timestamp = now, evaluator_id = ''mock-v0'',
                 scores = dict_with (e_scores r) ''overall'' (e_overall r),
                 rationale = e_rationale r, deterministic_results = []\<rparr>"
  have "responses s' = responses s @ [?resp]"
    using assms r by (auto simp: process_response_def Let_def ask_next_def split: if_splits)
  moreover have "map_of (scores ?resp) ''correctness'' = map_of (r_scores reply) ''correctness''"
    by (simp add: map_of_dict_with reply(2))
  ultimately show ?thesis using reply by (intro exI[of _ reply] exI[of _ ?resp]) simp
qed

theorem correctness_axis_is_the_scorers_witness:
  "phase sum_pending = Qa \<and> q_index sum_pending < length (questions sum_pending)
   \<and> correctness_history (run [Respond (Mock (3, 2, 2)) 5 ''=AVERAGE(A1:A10)''] sum_pending)
       = [dict_get (r_scores (mock_llm_evaluate (3, 2, 2) (q_text sum_question) ''=AVERAGE(A1:A10)''))
            ''correctness'' 0]"
proof -
  have a: "phase sum_pending = Qa" by (simp add: sum_pending_eq)
  have b: "q_index sum_pending < length (questions sum_pending)"
    by (simp add: sum_pending_eq init_state_def)
  obtain msg s' where
    ok: "process_response (Mock (3, 2, 2)) 5 ''=AVERAGE(A1:A10)'' sum_pending = Inr (msg, s')"
    using sum_pending_answered by blast
  from correctness_axis_is_the_scorers[OF a b ok]
  obtain reply resp where
    reply: "run_scorer (Mock (3, 2, 2)) (q_text (questions sum_pending ! q_index sum_pending))
              ''=AVERAGE(A1:A10)'' = Inr reply"
    and resp: "responses s' = responses sum_pending @ [resp]"
    and same: "map_of (scores resp) ''correctness'' = map_of (r_scores reply) ''correctness''"
    by blast
  have q: "questions sum_pending ! q_index sum_pending = sum_question"
    by (simp add: sum_pending_eq init_state_def)
  have "responses sum_pending = []" by (simp add: sum_pending_eq init_state_def)
  with resp have "responses s' = [resp]" by simp
  moreover have "run [Respond (Mock (3, 2, 2)) 5 ''=AVERAGE(A1:A10)''] sum_pending = s'"
    using ok by simp
  moreover have "reply = mock_llm_evaluate (3, 2, 2) (q_text sum_question) ''=AVERAGE(A1:A10)''"
    using reply q by simp
  ultimately show ?thesis using a b same
    by (simp add: correctness_history_def dict_get_def)
qed

end
